theory Spec2Isabelle
  imports Main "HOL-Library.Word" "HOL-Library.Signed_Division"
begin

section \<open>The calculator: \<open>gcc_tester.cpp\<close>\<close>

text \<open>
  The class \<open>GccTester\<close> has no data members, and both member functions are \<open>const\<close>:
  they are functions of their arguments alone. A C++ \<open>int\<close> is a 32-bit two's complement
  value on the platforms gcc targets; \<open>sint\<close> reads the integer it stands for, between
  \<open>- 2 ^ 31\<close> and \<open>2 ^ 31 - 1\<close>.
\<close>

type_synonym cpp_int = "32 word"

text \<open>
  The operator \<open>%\<close> of C++ on \<open>int\<close>: the remainder of the division that truncates towards
  zero, so the result has the sign of the dividend. On \<open>int\<close> this is \<open>smod\<close>, whereas
  \<open>mod\<close> takes the sign of the divisor. The two undefined cases of the language (a zero
  divisor, and \<open>INT_MIN % -1\<close>) do not arise for the divisor 2, the only one in the source.
\<close>

definition cpp_rem :: "cpp_int \<Rightarrow> cpp_int \<Rightarrow> cpp_int" where
  "cpp_rem a b = word_of_int (sint a smod sint b)"

text \<open>
  \<open>int GccTester::add(int a, int b) const { return a + b; }\<close>
  The addition of the machine: it wraps around modulo \<open>2 ^ 32\<close>. The language leaves a
  signed sum outside the range of \<open>int\<close> undefined, so only sums within the range are
  specified by the source.
\<close>

definition add :: "cpp_int \<Rightarrow> cpp_int \<Rightarrow> cpp_int" where
  "add a b = a + b"

text \<open>\<open>bool GccTester::is_even(int v) const { return (v % 2) == 0; }\<close>\<close>

definition is_even :: "cpp_int \<Rightarrow> bool" where
  "is_even v = (cpp_rem v 2 = 0)"


section \<open>The test \<open>IsEvenWorks\<close>: \<open>test_gcc_tester.cpp\<close>\<close>

subsection \<open>Expectations of the test framework\<close>

text \<open>
  \<open>EXPECT_TRUE\<close> and \<open>EXPECT_FALSE\<close> are the non-fatal assertions of googletest: a failed
  one is recorded and the test body goes on; the test passes when none has failed. The
  model keeps a log of every expectation the body has run, in order, with its macro, the
  text of its argument and whether it held.
\<close>

datatype macro = EXPECT_TRUE | EXPECT_FALSE

record expectation =
  macro :: macro
  expr :: string
  ok :: bool

type_synonym test_log = "expectation list"

definition expect :: "macro \<Rightarrow> string \<Rightarrow> bool \<Rightarrow> test_log \<Rightarrow> test_log" where
  "expect m e c log =
     log @ [\<lparr>macro = m, expr = e, ok = (case m of EXPECT_TRUE \<Rightarrow> c | EXPECT_FALSE \<Rightarrow> \<not> c)\<rparr>]"

definition failures :: "test_log \<Rightarrow> test_log" where
  "failures log = filter (\<lambda>a. \<not> ok a) log"

definition passed :: "test_log \<Rightarrow> bool" where
  "passed log = (failures log = [])"

subsection \<open>The file system and \<open>std::ifstream\<close>\<close>

text \<open>
  What the test reads of its environment: the files by path, each with its bytes and
  whether the process running the test may open it for reading.
\<close>

record file_entry =
  readable :: bool
  content :: "8 word list"

type_synonym filesystem = "string \<rightharpoonup> file_entry"

text \<open>
  The constructor \<open>std::ifstream fh(path)\<close> opens the file for reading and sets \<open>failbit\<close>
  when that does not succeed. Opening reads nothing, so \<open>eofbit\<close> is clear after it, also
  for an empty file. \<open>good()\<close> is true when no state bit is set.
\<close>

record ifstream =
  is_open :: bool
  failbit :: bool
  badbit :: bool
  eofbit :: bool
  buffer :: "8 word list"

definition ifstream_open :: "filesystem \<Rightarrow> string \<Rightarrow> ifstream" where
  "ifstream_open fs path =
     (case fs path of
        None \<Rightarrow> \<lparr>is_open = False, failbit = True, badbit = False, eofbit = False, buffer = []\<rparr>
      | Some f \<Rightarrow>
          if readable f
          then \<lparr>is_open = True, failbit = False, badbit = False, eofbit = False,
                buffer = content f\<rparr>
          else \<lparr>is_open = False, failbit = True, badbit = False, eofbit = False,
                buffer = []\<rparr>)"

definition good :: "ifstream \<Rightarrow> bool" where
  "good s = (\<not> failbit s \<and> \<not> badbit s \<and> \<not> eofbit s)"

subsection \<open>The test body\<close>

text \<open>\<open>const char *marker = "/tmp/gcc_tester_fail_marker";\<close>\<close>

definition marker :: string where
  "marker = ''/tmp/gcc_tester_fail_marker''"

text \<open>
  \<open>TEST(GccTesterBasic, IsEvenWorks)\<close>. The preprocessor keeps one of the two branches of
  \<open>#ifdef FAIL_TEST\<close>: the first argument says whether the macro is defined in the build.
  The second is the file system the test runs in. The result is the log of the
  expectations run.
\<close>

definition IsEvenWorks :: "bool \<Rightarrow> filesystem \<Rightarrow> test_log" where
  "IsEvenWorks FAIL_TEST fs =
     (let log = expect EXPECT_TRUE ''t.is_even(2)'' (is_even 2) []
      in if FAIL_TEST
         then expect EXPECT_TRUE ''false'' False log
         else let fh = ifstream_open fs marker
              in if good fh
                 then expect EXPECT_TRUE ''t.is_even(3)'' (is_even 3) log
                 else expect EXPECT_FALSE ''t.is_even(3)'' (is_even 3) log)"

subsection \<open>The oracle as the specification words it\<close>

text \<open>
  The algorithm of the specification, step by step: compute \<open>result = is_even(3)\<close> first;
  \<open>override\<close> is true if the compile-time flag is set or the marker resource exists; on
  the flag path assert an unconditional failure; otherwise, if the marker exists, assert
  \<open>result == true\<close>; otherwise assert \<open>result == false\<close>. The value is whether the
  assertion made holds.
\<close>

definition spec_oracle :: "bool \<Rightarrow> bool \<Rightarrow> bool" where
  "spec_oracle flag marker_exists =
     (let result = is_even 3;
          override = flag \<or> marker_exists
      in if flag then False
         else if marker_exists then result = True
         else result = False)"


section \<open>Parity and remainder\<close>

lemma smod_two_cases:
  "(k::int) smod 2 = (if even k then 0 else if k < 0 then - 1 else 1)"
  by (auto simp: signed_modulo_int_def sgn_if mod_2_eq_odd)

lemma even_sint_iff: "even (sint (v::cpp_int)) \<longleftrightarrow> even v"
proof -
  have "bit (sint v) 0 = bit v 0"
    by (simp add: bit_sint_iff)
  then show ?thesis
    by (simp add: bit_0)
qed

lemma sint_cpp_rem_two:
  "sint (cpp_rem v 2) = (if even (sint v) then 0 else if sint v < 0 then - 1 else 1)"
  by (simp add: cpp_rem_def smod_two_cases)

lemma is_even_parity: "is_even v \<longleftrightarrow> even (sint v)"
proof -
  have "cpp_rem v 2 = 0 \<longleftrightarrow> sint (cpp_rem v 2) = 0"
    by (simp add: signed_eq_0_iff)
  then show ?thesis
    by (simp add: is_even_def sint_cpp_rem_two)
qed

lemma is_even_two [simp]: "is_even 2"
  by (simp add: is_even_parity)

lemma not_is_even_three [simp]: "\<not> is_even 3"
  by (simp add: is_even_parity)

text \<open>
  C1. For every \<open>int\<close> value \<open>v\<close>, \<open>is_even(v)\<close> is true exactly when the integer \<open>v\<close>
  stands for is divisible by two, whatever its sign; and \<open>is_even(0)\<close> is true.
\<close>

theorem is_even_iff_divisible_by_two:
  "(is_even v \<longleftrightarrow> 2 dvd sint v) \<and> is_even 0"
  by (simp add: is_even_parity)

text \<open>
  C2. Whenever the sum of the integers \<open>a\<close> and \<open>b\<close> lies within the range of \<open>int\<close>,
  from \<open>- 2 ^ 31\<close> to \<open>2 ^ 31 - 1\<close>, \<open>add(a, b)\<close> is the integer \<open>a + b\<close>.
\<close>

theorem add_is_sum_in_range:
  "- (2 ^ 31) \<le> sint a + sint b \<Longrightarrow> sint a + sint b < 2 ^ 31 \<Longrightarrow>
   sint (add a b) = sint a + sint b"
  by (simp add: add_def sint_word_add signed_take_bit_int_eq_self)

theorem add_is_sum_in_range_witness:
  "- (2 ^ 31) \<le> sint (- 5 :: cpp_int) + sint (5 :: cpp_int)
   \<and> sint (- 5 :: cpp_int) + sint (5 :: cpp_int) < 2 ^ 31
   \<and> sint (add (- 5) 5) = sint (- 5 :: cpp_int) + sint (5 :: cpp_int)
   \<and> add (- 5) 5 = 0"
  using add_is_sum_in_range [of "- 5" 5] by (simp add: add_def)

text \<open>
  C6. \<open>is_even(v) == is_even(-v)\<close> for every \<open>int\<close> value \<open>v\<close>: for the negation of the
  machine, which maps \<open>INT_MIN\<close> to itself, and for any \<open>w\<close> that stands for the integer
  \<open>- v\<close>.
\<close>

theorem is_even_negation:
  "is_even (- v) = is_even v \<and> (sint w = - sint v \<longrightarrow> is_even w = is_even v)"
  by (simp add: is_even_parity even_sint_iff)

theorem is_even_negation_witness:
  "sint (- 3 :: cpp_int) = - sint (3 :: cpp_int)
   \<and> is_even (- 3) = is_even 3 \<and> \<not> is_even (- 3)"
  using is_even_negation [of 3 "- 3"] by simp

text \<open>
  C7. \<open>is_even(v) != is_even(v + 1)\<close> for every \<open>int\<close> value \<open>v\<close>: for the addition of the
  machine, which takes \<open>INT_MAX\<close> to \<open>INT_MIN\<close>, and for any \<open>w\<close> that stands for the
  integer \<open>v + 1\<close>.
\<close>

theorem is_even_successor:
  "is_even (v + 1) \<noteq> is_even v \<and> (sint w = sint v + 1 \<longrightarrow> is_even w \<noteq> is_even v)"
  by (simp add: is_even_parity even_sint_iff)

theorem is_even_successor_witness:
  "sint (- 2 :: cpp_int) = sint (- 3 :: cpp_int) + 1 \<and> is_even (- 2) \<noteq> is_even (- 3)"
  using is_even_successor [of "- 3" "- 2"] by simp

text \<open>
  C9. For every negative \<open>int\<close> value \<open>v\<close>, \<open>is_even(v)\<close> is the parity of the integer:
  false when it is odd, true when it is even. The remainder \<open>v % 2\<close> is \<open>-1\<close>, not \<open>1\<close>,
  when \<open>v\<close> is negative and odd, and \<open>0\<close> when \<open>v\<close> is even; the comparison with \<open>0\<close>
  does not see the sign.
\<close>

theorem is_even_negative:
  "sint v < 0 \<Longrightarrow>
   is_even v = even (sint v) \<and> sint (cpp_rem v 2) = (if even (sint v) then 0 else - 1)"
  by (simp add: is_even_parity sint_cpp_rem_two)

theorem is_even_negative_witness:
  "sint (- 3 :: cpp_int) < 0 \<and> \<not> is_even (- 3) \<and> sint (cpp_rem (- 3) 2) = - 1
   \<and> sint (- 4 :: cpp_int) < 0 \<and> is_even (- 4) \<and> sint (cpp_rem (- 4) 2) = 0"
  using is_even_negative [of "- 3"] is_even_negative [of "- 4"] by simp


section \<open>The outcome of \<open>IsEvenWorks\<close>\<close>

text \<open>The stream is good exactly when the file is there and may be read.\<close>

lemma good_ifstream_open:
  "good (ifstream_open fs path) \<longleftrightarrow> (case fs path of None \<Rightarrow> False | Some f \<Rightarrow> readable f)"
  by (simp add: good_def ifstream_open_def split: option.split)

text \<open>The log of the test, by the branch taken.\<close>

lemma IsEvenWorks_log:
  "IsEvenWorks FAIL_TEST fs =
     [\<lparr>macro = EXPECT_TRUE, expr = ''t.is_even(2)'', ok = True\<rparr>,
      if FAIL_TEST then \<lparr>macro = EXPECT_TRUE, expr = ''false'', ok = False\<rparr>
      else if good (ifstream_open fs marker)
           then \<lparr>macro = EXPECT_TRUE, expr = ''t.is_even(3)'', ok = False\<rparr>
           else \<lparr>macro = EXPECT_FALSE, expr = ''t.is_even(3)'', ok = True\<rparr>]"
  by (simp add: IsEvenWorks_def expect_def Let_def)

text \<open>
  C3, as the specification states it: whenever the marker exists and the compile-time
  flag is absent, the test expects \<open>is_even(3)\<close> to be true and fails. It does not hold
  for a marker that exists and that the process may not read: the stream is not good,
  the test expects \<open>is_even(3)\<close> to be false, and passes.
\<close>

theorem marker_exists_unreadable_passes:
  "[marker \<mapsto> \<lparr>readable = False, content = []\<rparr>] marker \<noteq> None
   \<and> passed (IsEvenWorks False [marker \<mapsto> \<lparr>readable = False, content = []\<rparr>])"
  by (simp add: IsEvenWorks_log good_ifstream_open passed_def failures_def)

text \<open>
  C3, amended: whenever the marker file exists and can be opened for reading, and the
  compile-time flag is absent, the test runs \<open>EXPECT_TRUE(t.is_even(3))\<close> after the
  expectation on \<open>is_even(2)\<close> has held; that expectation is the one failure of the
  test, which does not pass.
\<close>

theorem readable_marker_fails_parity_expectation:
  "fs marker = Some f \<Longrightarrow> readable f \<Longrightarrow>
   IsEvenWorks False fs =
     [\<lparr>macro = EXPECT_TRUE, expr = ''t.is_even(2)'', ok = True\<rparr>,
      \<lparr>macro = EXPECT_TRUE, expr = ''t.is_even(3)'', ok = False\<rparr>]
   \<and> failures (IsEvenWorks False fs) =
       [\<lparr>macro = EXPECT_TRUE, expr = ''t.is_even(3)'', ok = False\<rparr>]
   \<and> \<not> passed (IsEvenWorks False fs)"
  by (simp add: IsEvenWorks_log good_ifstream_open passed_def failures_def)

theorem readable_marker_fails_parity_expectation_witness:
  "[marker \<mapsto> \<lparr>readable = True, content = [1, 2]\<rparr>] marker
     = Some \<lparr>readable = True, content = [1, 2]\<rparr>
   \<and> readable \<lparr>readable = True, content = [1, 2]\<rparr>
   \<and> \<not> passed (IsEvenWorks False [marker \<mapsto> \<lparr>readable = True, content = [1, 2]\<rparr>])"
  using readable_marker_fails_parity_expectation
    [of "[marker \<mapsto> \<lparr>readable = True, content = [1, 2]\<rparr>]"
        "\<lparr>readable = True, content = [1, 2]\<rparr>"]
  by (simp add: passed_def failures_def)

text \<open>
  C4. With \<open>FAIL_TEST\<close> defined the test fails in every file system, the marker being
  there or not: it runs \<open>EXPECT_TRUE(false)\<close> and never opens the marker.
\<close>

theorem fail_test_fails_unconditionally:
  "IsEvenWorks True fs =
     [\<lparr>macro = EXPECT_TRUE, expr = ''t.is_even(2)'', ok = True\<rparr>,
      \<lparr>macro = EXPECT_TRUE, expr = ''false'', ok = False\<rparr>]
   \<and> \<not> passed (IsEvenWorks True fs)"
  by (simp add: IsEvenWorks_log passed_def failures_def)

text \<open>
  C5. Without \<open>FAIL_TEST\<close> and with no marker in the file system, every expectation the
  test runs holds, the second being \<open>EXPECT_FALSE(t.is_even(3))\<close>, and the test passes.
\<close>

theorem no_flag_no_marker_passes:
  "fs marker = None \<Longrightarrow>
   IsEvenWorks False fs =
     [\<lparr>macro = EXPECT_TRUE, expr = ''t.is_even(2)'', ok = True\<rparr>,
      \<lparr>macro = EXPECT_FALSE, expr = ''t.is_even(3)'', ok = True\<rparr>]
   \<and> failures (IsEvenWorks False fs) = []
   \<and> passed (IsEvenWorks False fs)"
  by (simp add: IsEvenWorks_log good_ifstream_open passed_def failures_def)

theorem no_flag_no_marker_passes_witness:
  "Map.empty marker = None \<and> passed (IsEvenWorks False Map.empty)"
  using no_flag_no_marker_passes [of Map.empty]
  by (simp add: passed_def failures_def)

text \<open>
  C8, as the specification states it: for every value of the compile-time flag and of
  the existence of the marker, the test passes exactly when the algorithm of the
  specification does. It does not hold for a marker that exists and that the process
  may not read, without the flag: the algorithm of the specification, told that the
  marker exists, asserts \<open>result == true\<close> and fails, while the test finds the stream
  not good, expects \<open>is_even(3)\<close> to be false, and passes.
\<close>

theorem unreadable_marker_breaks_existence_refinement:
  "passed (IsEvenWorks False [marker \<mapsto> \<lparr>readable = False, content = []\<rparr>])
   \<noteq> spec_oracle False ([marker \<mapsto> \<lparr>readable = False, content = []\<rparr>] marker \<noteq> None)"
  by (simp add: IsEvenWorks_log good_ifstream_open spec_oracle_def passed_def failures_def)

text \<open>
  C8, amended: for every value of the compile-time flag and of the signal the test
  reads, which is whether the marker can be opened for reading (\<open>fh.good()\<close>), the test
  passes exactly when the algorithm of the specification does at that signal, although
  the algorithm computes \<open>is_even(3)\<close> before it branches and the test inside each
  branch. Both values of the signal occur. In every file system where the marker is
  absent, or is there and readable, the signal is the existence of the marker, and the
  test passes exactly when the algorithm does at the existence of the marker.
\<close>

theorem IsEvenWorks_refines_spec_oracle:
  "passed (IsEvenWorks flag fs) = spec_oracle flag (good (ifstream_open fs marker))
   \<and> (\<exists>fs1. good (ifstream_open fs1 marker))
   \<and> (\<exists>fs0. \<not> good (ifstream_open fs0 marker))
   \<and> ((case fs marker of None \<Rightarrow> True | Some f \<Rightarrow> readable f) \<longrightarrow>
        good (ifstream_open fs marker) = (fs marker \<noteq> None)
        \<and> passed (IsEvenWorks flag fs) = spec_oracle flag (fs marker \<noteq> None))"
proof -
  have sig: "passed (IsEvenWorks flag fs) = spec_oracle flag (good (ifstream_open fs marker))"
    by (simp add: IsEvenWorks_log spec_oracle_def passed_def failures_def)
  have yes: "good (ifstream_open [marker \<mapsto> \<lparr>readable = True, content = []\<rparr>] marker)"
    by (simp add: good_ifstream_open)
  have no: "\<not> good (ifstream_open Map.empty marker)"
    by (simp add: good_ifstream_open)
  have ex: "good (ifstream_open fs marker) = (fs marker \<noteq> None)"
    if "case fs marker of None \<Rightarrow> True | Some f \<Rightarrow> readable f"
    using that by (simp add: good_ifstream_open split: option.splits)
  have "\<exists>fs1. good (ifstream_open fs1 marker)"
    using yes by blast
  moreover have "\<exists>fs0. \<not> good (ifstream_open fs0 marker)"
    using no by blast
  moreover have "passed (IsEvenWorks flag fs) = spec_oracle flag (fs marker \<noteq> None)"
    if "case fs marker of None \<Rightarrow> True | Some f \<Rightarrow> readable f"
    using sig ex [OF that] by simp
  ultimately show ?thesis
    using sig ex by simp
qed

theorem IsEvenWorks_refines_spec_oracle_witness:
  "(case [marker \<mapsto> \<lparr>readable = True, content = [1, 2]\<rparr>] marker of
      None \<Rightarrow> True | Some f \<Rightarrow> readable f)
   \<and> passed (IsEvenWorks False [marker \<mapsto> \<lparr>readable = True, content = [1, 2]\<rparr>])
     = spec_oracle False ([marker \<mapsto> \<lparr>readable = True, content = [1, 2]\<rparr>] marker \<noteq> None)
   \<and> \<not> spec_oracle False ([marker \<mapsto> \<lparr>readable = True, content = [1, 2]\<rparr>] marker \<noteq> None)
   \<and> (case Map.empty marker of None \<Rightarrow> True | Some f \<Rightarrow> readable (f :: file_entry))
   \<and> passed (IsEvenWorks False Map.empty) = spec_oracle False (Map.empty marker \<noteq> None)
   \<and> spec_oracle False (Map.empty marker \<noteq> None)"
  using IsEvenWorks_refines_spec_oracle
          [of False "[marker \<mapsto> \<lparr>readable = True, content = [1, 2]\<rparr>]"]
        IsEvenWorks_refines_spec_oracle [of False Map.empty]
  by (simp add: spec_oracle_def)

text \<open>
  C10. Two runs of the test that agree on the compile-time flag and on whether the
  marker can be opened for reading have the same log, hence the same outcome, whatever
  the two file systems hold, the bytes of the marker included.
\<close>

theorem outcome_depends_on_flag_and_good_only:
  "flag1 = flag2 \<Longrightarrow> good (ifstream_open fs1 marker) = good (ifstream_open fs2 marker) \<Longrightarrow>
   IsEvenWorks flag1 fs1 = IsEvenWorks flag2 fs2
   \<and> passed (IsEvenWorks flag1 fs1) = passed (IsEvenWorks flag2 fs2)"
  by (simp add: IsEvenWorks_log)

theorem outcome_depends_on_flag_and_good_only_witness:
  "good (ifstream_open [marker \<mapsto> \<lparr>readable = True, content = []\<rparr>] marker)
     = good (ifstream_open [marker \<mapsto> \<lparr>readable = True, content = [7, 9]\<rparr>] marker)
   \<and> IsEvenWorks False [marker \<mapsto> \<lparr>readable = True, content = []\<rparr>]
     = IsEvenWorks False [marker \<mapsto> \<lparr>readable = True, content = [7, 9]\<rparr>]"
  using outcome_depends_on_flag_and_good_only
    [of False False "[marker \<mapsto> \<lparr>readable = True, content = []\<rparr>]"
        "[marker \<mapsto> \<lparr>readable = True, content = [7, 9]\<rparr>]"]
  by (simp add: good_ifstream_open)

end
